theory Spec2Isabelle
  imports Main
begin

section \<open>JavaScript string primitives used by the components\<close>

text \<open>
  Strings are lists of \<open>char\<close>, so the model covers the code units below 256. On that
  range the ECMAScript white space and line terminator characters (the set removed by
  \<open>String.prototype.trim\<close> and matched by the regular expression class \<open>\s\<close>) are
  TAB, LF, VT, FF, CR, SPACE and NO-BREAK SPACE.
\<close>

definition is_space :: "char \<Rightarrow> bool" where
  "is_space c = (c \<in> {CHR 0x09, CHR 0x0A, CHR 0x0B, CHR 0x0C, CHR 0x0D, CHR 0x20, CHR 0xA0})"

text \<open>\<open>s.trim()\<close>: strip the leading and the trailing white space.\<close>

definition trim :: "string \<Rightarrow> string" where
  "trim s = rev (dropWhile is_space (rev (dropWhile is_space s)))"

text \<open>
  \<open>s.split(/\s+/)\<close>: cut the string at every maximal run of white space. The text before
  the first run and the text after the last run are tokens even when they are empty, and a
  string without any white space (the empty string too) is a single token.
\<close>

function split_ws :: "string \<Rightarrow> string list" where
  "split_ws s =
     (let tok = takeWhile (\<lambda>c. \<not> is_space c) s;
          rest = dropWhile (\<lambda>c. \<not> is_space c) s
      in if rest = [] then [tok] else tok # split_ws (dropWhile is_space rest))"
  by pat_completeness auto
termination
proof (relation "measure length")
  show "wf (measure length)" by simp
next
  fix s :: string and tok rest
  assume rest: "rest = dropWhile (\<lambda>c. \<not> is_space c) s" and ne: "rest \<noteq> []"
  from ne obtain c cs where r: "rest = c # cs" by (cases rest) auto
  have "length (dropWhile is_space rest) \<le> length rest"
    by (rule length_dropWhile_le)
  moreover have "is_space c"
    using rest r dropWhile_eq_Cons_conv [of "\<lambda>c. \<not> is_space c" s c cs] by simp
  then have "length (dropWhile is_space rest) \<le> length cs"
    using r by (simp add: length_dropWhile_le)
  moreover have "length rest \<le> length s"
    unfolding rest by (rule length_dropWhile_le)
  ultimately show "(dropWhile is_space rest, s) \<in> measure length"
    using r by simp
qed

declare split_ws.simps [simp del]



text \<open>
  \<open>s.startsWith(t)\<close> and \<open>s.includes(t)\<close>: \<open>t\<close> occurs in \<open>s\<close> at some position. Both
  compare code unit by code unit, whatever the alphabet of the strings.
\<close>

fun startsWith :: "'a list \<Rightarrow> 'a list \<Rightarrow> bool" where
  "startsWith s [] = True"
| "startsWith [] (d # t) = False"
| "startsWith (c # s) (d # t) = (c = d \<and> startsWith s t)"

fun includes_str :: "'a list \<Rightarrow> 'a list \<Rightarrow> bool" where
  "includes_str [] t = (t = [])"
| "includes_str (c # s) t = (startsWith (c # s) t \<or> includes_str s t)"

text \<open>Truthiness of an optional string: \<open>undefined\<close>, \<open>null\<close> and \<open>""\<close> are falsy.\<close>

fun truthy :: "string option \<Rightarrow> bool" where
  "truthy None = False"
| "truthy (Some s) = (s \<noteq> [])"

section \<open>Note Editor (NoteEditor component)\<close>

text \<open>The \<open>note\<close> prop of the editor: \<open>id\<close> and \<open>summary\<close> are optional.\<close>

record editor_note =
  en_id :: "string option"
  en_title :: string
  en_content :: string
  en_summary :: "string option"

text \<open>The props and the local state of one editor instance.\<close>

record editor =
  ed_note :: "editor_note option"
  ed_isLoading :: bool
  ed_title :: string
  ed_content :: string

text \<open>The object handed to \<open>onSave\<close>.\<close>

record note_payload =
  p_id :: "string option"
  p_title :: string
  p_content :: string

datatype editor_callback = OnSave note_payload | OnCancel

text \<open>\<open>note?.id\<close>\<close>

definition note_id_of :: "editor_note option \<Rightarrow> string option" where
  "note_id_of n = (case n of None \<Rightarrow> None | Some m \<Rightarrow> en_id m)"

text \<open>\<open>handleSave\<close>: the list of callbacks it invokes (none, or one \<open>onSave\<close>).\<close>

definition handleSave :: "editor \<Rightarrow> editor_callback list" where
  "handleSave ed =
     (let trimmedTitle = trim (ed_title ed);
          trimmedContent = trim (ed_content ed)
      in if trimmedTitle = [] \<and> trimmedContent = [] then []
         else [OnSave \<lparr> p_id = note_id_of (ed_note ed),
                        p_title = (if trimmedTitle = [] then ''Untitled Note'' else trimmedTitle),
                        p_content = trimmedContent \<rparr>])"

record key_event =
  ctrlKey :: bool
  key :: string

text \<open>\<open>handleKeyDown\<close>: two independent tests, neither of them reads \<open>isLoading\<close>.\<close>

definition handleKeyDown :: "key_event \<Rightarrow> editor \<Rightarrow> editor_callback list" where
  "handleKeyDown e ed =
     (if ctrlKey e \<and> key e = ''Enter'' then handleSave ed else []) @
     (if key e = ''Escape'' then [OnCancel] else [])"

text \<open>
  The footer buttons. A disabled button delivers no click; Cancel is disabled by
  \<open>isLoading\<close>, Save by \<open>isLoading || (!title.trim() && !content.trim())\<close>. The close
  button of the header has no \<open>disabled\<close> attribute.
\<close>

definition cancel_disabled :: "editor \<Rightarrow> bool" where
  "cancel_disabled ed = ed_isLoading ed"

definition save_disabled :: "editor \<Rightarrow> bool" where
  "save_disabled ed =
     (ed_isLoading ed \<or> (trim (ed_title ed) = [] \<and> trim (ed_content ed) = []))"

definition click_cancel :: "editor \<Rightarrow> editor_callback list" where
  "click_cancel ed = (if cancel_disabled ed then [] else [OnCancel])"

definition click_save :: "editor \<Rightarrow> editor_callback list" where
  "click_save ed = (if save_disabled ed then [] else handleSave ed)"

definition click_close :: "editor \<Rightarrow> editor_callback list" where
  "click_close ed = [OnCancel]"

text \<open>The live counters under the text area.\<close>

definition wordCount :: "string \<Rightarrow> nat" where
  "wordCount content = length (filter (\<lambda>word. length word > 0) (split_ws (trim content)))"

definition charCount :: "string \<Rightarrow> nat" where
  "charCount content = length content"

section \<open>Dashboard (orchestrator)\<close>

text \<open>
  A row of the \<open>notes\<close> table as the Dashboard holds it in memory (the interface \<open>Note\<close>);
  \<open>nid\<close> is the column \<open>id\<close>.
\<close>

record Note =
  nid :: string
  title :: string
  content :: string
  summary :: "string option"
  created_at :: string
  updated_at :: string

text \<open>A call of \<open>toast\<close>; \<open>destructive\<close> is the error variant.\<close>

record toast =
  toast_title :: string
  toast_description :: string
  destructive :: bool

text \<open>
  The component state (the \<open>useState\<close> cells; \<open>noteList\<close> is the cell \<open>notes\<close>), and
  the notifications shown so far: \<open>toast\<close> is the only other effect the handlers have on
  what the user sees.
\<close>

record dashboard =
  noteList :: "Note list"
  searchTerm :: string
  isEditorOpen :: bool
  editingNote :: "Note option"
  loading :: bool
  savingNote :: bool
  generatingSummary :: "string option"
  toasts :: "toast list"

text \<open>The initial values of the \<open>useState\<close> cells.\<close>

definition initial_dashboard :: dashboard where
  "initial_dashboard =
     \<lparr>noteList = [], searchTerm = [], isEditorOpen = False, editingNote = None,
      loading = True, savingNote = False, generatingSummary = None, toasts = []\<rparr>"

text \<open>
  The calls that leave the component: the four query-builder chains on the \<open>notes\<close>
  table and the invocation of the \<open>summarize-note\<close> function.
\<close>

datatype request =
    StoreUpdate (upd_id: string) (upd_user: string) (upd_title: string) (upd_content: string)
  | StoreInsert (ins_title: string) (ins_content: string) (ins_user: string)
  | StoreDelete (del_id: string) (del_user: string)
  | StoreUpdateSummary (sum_value: string) (sum_id: string) (sum_user: string)
  | InvokeSummarize (inv_title: string) (inv_content: string)

text \<open>
  What a call answers. \<open>Inl msg\<close> is a failure (an \<open>error\<close> in the answer, or a rejected
  promise: both end in the \<open>catch\<close> block); \<open>Inr\<close> carries \<open>data\<close>.
\<close>

type_synonym row_response = "string + Note"

type_synonym unit_response = "string option"

text \<open>\<open>data?.summary\<close> of the function's answer, or its failure.\<close>

datatype invoke_response = InvokeError string | InvokeData "string option"

definition add_toast :: "toast \<Rightarrow> dashboard \<Rightarrow> dashboard" where
  "add_toast t ds = ds\<lparr>toasts := toasts ds @ [t]\<rparr>"

text \<open>
  \<open>{ ...note, ...data }\<close>: \<open>select()\<close> returns every column of the row, and each of them
  overrides the field of the entry.
\<close>

definition merge_row :: "Note \<Rightarrow> Note \<Rightarrow> Note" where
  "merge_row n data =
     n\<lparr>nid := nid data, title := title data, content := content data,
       summary := summary data, created_at := created_at data, updated_at := updated_at data\<rparr>"

subsection \<open>saveNote\<close>

definition saveNote_request :: "string \<Rightarrow> note_payload \<Rightarrow> request" where
  "saveNote_request uid noteData =
     (case p_id noteData of
        None \<Rightarrow> StoreInsert (p_title noteData) (p_content noteData) uid
      | Some i \<Rightarrow>
          if i = [] then StoreInsert (p_title noteData) (p_content noteData) uid
          else StoreUpdate i uid (p_title noteData) (p_content noteData))"

text \<open>Up to the \<open>await\<close>: the saving flag is raised.\<close>

definition saveNote_begin :: "dashboard \<Rightarrow> dashboard" where
  "saveNote_begin ds = ds\<lparr>savingNote := True\<rparr>"

text \<open>From the answer of the store to the end of \<open>finally\<close>.\<close>

definition saveNote_resume :: "note_payload \<Rightarrow> row_response \<Rightarrow> dashboard \<Rightarrow> dashboard" where
  "saveNote_resume noteData resp ds =
     (case resp of
        Inl err \<Rightarrow>
          (add_toast \<lparr>toast_title = ''Error saving note'',
                     toast_description = ''Please try again'', destructive = True\<rparr> ds)
          \<lparr>savingNote := False\<rparr>
      | Inr data \<Rightarrow>
          (if truthy (p_id noteData)
           then (add_toast \<lparr>toast_title = ''Note updated'',
                   toast_description = ''Your changes have been saved successfully.'',
                   destructive = False\<rparr>
                   (ds\<lparr>noteList := map (\<lambda>n. if Some (nid n) = p_id noteData
                                          then merge_row n data else n) (noteList ds)\<rparr>))
           else (add_toast \<lparr>toast_title = ''Note created'',
                   toast_description = ''Your new note has been saved successfully.'',
                   destructive = False\<rparr>
                   (ds\<lparr>noteList := data # noteList ds\<rparr>)))
          \<lparr>isEditorOpen := False, editingNote := None, savingNote := False\<rparr>)"

text \<open>
  The whole call when nothing else happens in between: the final state and the requests
  issued. Without a signed-in user it returns at once.
\<close>

definition saveNote ::
  "string option \<Rightarrow> note_payload \<Rightarrow> row_response \<Rightarrow> dashboard \<Rightarrow> dashboard \<times> request list" where
  "saveNote user noteData resp ds =
     (case user of
        None \<Rightarrow> (ds, [])
      | Some uid \<Rightarrow>
          (saveNote_resume noteData resp (saveNote_begin ds), [saveNote_request uid noteData]))"

subsection \<open>deleteNote\<close>

definition deleteNote_resume :: "string \<Rightarrow> unit_response \<Rightarrow> dashboard \<Rightarrow> dashboard" where
  "deleteNote_resume noteId resp ds =
     (case resp of
        Some err \<Rightarrow>
          add_toast \<lparr>toast_title = ''Error deleting note'',
                    toast_description = ''Please try again'', destructive = True\<rparr> ds
      | None \<Rightarrow>
          add_toast \<lparr>toast_title = ''Note deleted'',
                    toast_description = ''The note has been removed successfully.'',
                    destructive = False\<rparr>
            (ds\<lparr>noteList := filter (\<lambda>n. nid n \<noteq> noteId) (noteList ds)\<rparr>))"

definition deleteNote ::
  "string option \<Rightarrow> string \<Rightarrow> unit_response \<Rightarrow> dashboard \<Rightarrow> dashboard \<times> request list" where
  "deleteNote user noteId resp ds =
     (case user of
        None \<Rightarrow> (ds, [])
      | Some uid \<Rightarrow> (deleteNote_resume noteId resp ds, [StoreDelete noteId uid]))"

subsection \<open>generateSummary\<close>

definition reject_toast :: toast where
  "reject_toast = \<lparr>toast_title = ''Cannot summarize'',
     toast_description = ''Please add some content to the note first.'', destructive = True\<rparr>"

text \<open>The \<open>catch\<close> block followed by \<open>finally\<close>.\<close>

definition summary_failed :: "string \<Rightarrow> dashboard \<Rightarrow> dashboard" where
  "summary_failed msg ds =
     (add_toast \<lparr>toast_title = ''Failed to generate summary'',
        toast_description = (if msg = [] then ''Please try again later'' else msg),
        destructive = True\<rparr> ds)
     \<lparr>generatingSummary := None\<rparr>"

text \<open>Up to the first \<open>await\<close>: the marker is set.\<close>

definition generateSummary_begin :: "string \<Rightarrow> dashboard \<Rightarrow> dashboard" where
  "generateSummary_begin noteId ds = ds\<lparr>generatingSummary := Some noteId\<rparr>"

text \<open>
  The state on screen while the call is suspended at its first \<open>await\<close>, if it gets there.
\<close>

definition generateSummary_pending :: "string \<Rightarrow> string \<Rightarrow> dashboard \<Rightarrow> dashboard option" where
  "generateSummary_pending noteId cnt ds =
     (if trim cnt = [] then None else Some (generateSummary_begin noteId ds))"

text \<open>After the store has accepted the summary: the local merge, then \<open>finally\<close>.\<close>

definition summary_stored :: "string \<Rightarrow> string \<Rightarrow> dashboard \<Rightarrow> dashboard" where
  "summary_stored noteId s ds =
     (add_toast \<lparr>toast_title = ''Summary generated!'',
        toast_description = ''AI has successfully summarized your note.'',
        destructive = False\<rparr>
        (ds\<lparr>noteList := map (\<lambda>n. if nid n = noteId then n\<lparr>summary := Some s\<rparr> else n) (noteList ds)\<rparr>))
     \<lparr>generatingSummary := None\<rparr>"

text \<open>
  The whole call. \<open>user!.id\<close> is read only after the function has answered; without a
  user that read throws a TypeError, which the \<open>catch\<close> block reports like any failure.
\<close>

definition generateSummary ::
  "string option \<Rightarrow> string \<Rightarrow> string \<Rightarrow> string \<Rightarrow> invoke_response \<Rightarrow> unit_response
     \<Rightarrow> dashboard \<Rightarrow> dashboard \<times> request list" where
  "generateSummary user noteId ttl cnt ires ures ds =
     (if trim cnt = [] then (add_toast reject_toast ds, [])
      else
        let ds1 = generateSummary_begin noteId ds;
            call = InvokeSummarize ttl cnt
        in case ires of
             InvokeError msg \<Rightarrow> (summary_failed msg ds1, [call])
           | InvokeData None \<Rightarrow> (summary_failed ''No summary received'' ds1, [call])
           | InvokeData (Some s) \<Rightarrow>
               if s = [] then (summary_failed ''No summary received'' ds1, [call])
               else (case user of
                       None \<Rightarrow>
                         (summary_failed ''Cannot read properties of null (reading 'id')'' ds1,
                          [call])
                     | Some uid \<Rightarrow>
                         (case ures of
                            Some err \<Rightarrow>
                              (summary_failed err ds1, [call, StoreUpdateSummary s noteId uid])
                          | None \<Rightarrow>
                              (summary_stored noteId s ds1,
                               [call, StoreUpdateSummary s noteId uid]))))"

subsection \<open>Derived values\<close>


text \<open>The Total Words tile: \<open>notes.reduce((acc, note) => acc + note.content.split(/\s+/).length, 0)\<close>\<close>

definition totalWords :: "Note list \<Rightarrow> nat" where
  "totalWords ns = foldl (\<lambda>acc n. acc + length (split_ws (content n))) 0 ns"

text \<open>The \<open>onCancel\<close> prop the Dashboard gives the editor.\<close>

definition closeEditor :: "dashboard \<Rightarrow> dashboard" where
  "closeEditor ds = ds\<lparr>isEditorOpen := False, editingNote := None\<rparr>"

text \<open>
  The editor inside the Dashboard: \<open>onSave\<close> is \<open>saveNote\<close>, \<open>onCancel\<close> closes the
  editor, and \<open>isLoading\<close> is the saving flag.
\<close>

fun run_callback ::
  "string option \<Rightarrow> row_response \<Rightarrow> editor_callback \<Rightarrow> dashboard \<Rightarrow> dashboard \<times> request list" where
  "run_callback user resp (OnSave noteData) ds = saveNote user noteData resp ds"
| "run_callback user resp OnCancel ds = (closeEditor ds, [])"

fun run_callbacks ::
  "string option \<Rightarrow> row_response \<Rightarrow> editor_callback list \<Rightarrow> dashboard \<Rightarrow> dashboard \<times> request list" where
  "run_callbacks user resp [] ds = (ds, [])"
| "run_callbacks user resp (cb # cbs) ds =
     (let (ds1, rs1) = run_callback user resp cb ds;
          (ds2, rs2) = run_callbacks user resp cbs ds1
      in (ds2, rs1 @ rs2))"

definition editor_save ::
  "string option \<Rightarrow> editor \<Rightarrow> row_response \<Rightarrow> dashboard \<Rightarrow> dashboard \<times> request list" where
  "editor_save user ed resp ds = run_callbacks user resp (handleSave ed) ds"

definition editor_keydown ::
  "string option \<Rightarrow> key_event \<Rightarrow> editor \<Rightarrow> row_response \<Rightarrow> dashboard
     \<Rightarrow> dashboard \<times> request list" where
  "editor_keydown user e ed resp ds = run_callbacks user resp (handleKeyDown e ed) ds"

subsection \<open>The search rule of the specification\<close>





subsection \<open>The search on strings beyond Latin-1\<close>

text \<open>
  \<open>toLowerCase\<close> is not a map over the code units once a string leaves Latin-1: the capital
  sigma U+03A3 becomes the final sigma U+03C2 when a cased letter stands before it (with
  nothing but case-ignorable characters in between) and no cased letter follows it (again
  across case-ignorable characters), and the small sigma U+03C3 otherwise. The alphabet below
  is Latin-1 together with the twenty-four letters of the Greek alphabet in both cases and the
  final sigma; it is enough to show the rule at work inside the search. The cased and the
  case-ignorable characters of Latin-1 are those of the Unicode character database.
\<close>

datatype greek_letter =
    Gr_alpha | Gr_beta | Gr_gamma | Gr_delta | Gr_epsilon | Gr_zeta | Gr_eta | Gr_theta
  | Gr_iota | Gr_kappa | Gr_lambda | Gr_mu | Gr_nu | Gr_xi | Gr_omicron | Gr_pi | Gr_rho
  | Gr_sigma | Gr_tau | Gr_upsilon | Gr_phi | Gr_chi | Gr_psi | Gr_omega













section \<open>Note Store\<close>

text \<open>
  The \<open>notes\<close> table of the migration, as far as the requests of the Dashboard read and
  write it: every row has an owner (\<open>user_id\<close>) next to the columns of a note, and the
  trigger \<open>update_notes_updated_at\<close> stamps every updated row. \<open>now\<close> is the time of the
  statement and \<open>fresh\<close> the identifier \<open>gen_random_uuid()\<close> draws for an inserted row.
\<close>

type_synonym notes_table = "(string \<times> Note) list"

text \<open>\<open>.eq('id', i).eq('user_id', u)\<close>\<close>

definition row_matches :: "string \<Rightarrow> string \<Rightarrow> string \<times> Note \<Rightarrow> bool" where
  "row_matches i u r = (nid (snd r) = i \<and> fst r = u)"

fun store_apply :: "string \<Rightarrow> string \<Rightarrow> request \<Rightarrow> notes_table \<Rightarrow> notes_table" where
  "store_apply now fresh (StoreUpdate i u t c) tbl =
     map (\<lambda>r. if row_matches i u r
               then (fst r, (snd r)\<lparr>title := t, content := c, updated_at := now\<rparr>)
               else r) tbl"
| "store_apply now fresh (StoreInsert t c u) tbl =
     tbl @ [(u, \<lparr>nid = fresh, title = t, content = c, summary = None,
                 created_at = now, updated_at = now\<rparr>)]"
| "store_apply now fresh (StoreDelete i u) tbl = filter (\<lambda>r. \<not> row_matches i u r) tbl"
| "store_apply now fresh (StoreUpdateSummary s i u) tbl =
     map (\<lambda>r. if row_matches i u r
               then (fst r, (snd r)\<lparr>summary := Some s, updated_at := now\<rparr>)
               else r) tbl"
| "store_apply now fresh (InvokeSummarize t c) tbl = tbl"

text \<open>The stored summary of the note \<open>i\<close> of user \<open>u\<close>, if the table has that row.\<close>

definition persisted_summary :: "notes_table \<Rightarrow> string \<Rightarrow> string \<Rightarrow> string option option" where
  "persisted_summary tbl u i = map_option (\<lambda>r. summary (snd r)) (find (row_matches i u) tbl)"

text \<open>
  \<open>.select().single()\<close> after the update: the updated row when exactly one row matched,
  an error otherwise.
\<close>

definition update_answer ::
  "string \<Rightarrow> string \<Rightarrow> string \<Rightarrow> string \<Rightarrow> string \<Rightarrow> notes_table \<Rightarrow> row_response" where
  "update_answer now i u t c tbl =
     (case filter (row_matches i u) (store_apply now [] (StoreUpdate i u t c) tbl) of
        [r] \<Rightarrow> Inr (snd r)
      | _ \<Rightarrow> Inl ''JSON object requested, multiple (or no) rows returned'')"

section \<open>Note Card (NoteCard component)\<close>

text \<open>
  \<open>handleSummarize\<close>: the toasts it shows, and the arguments of its call of
  \<open>onSummarize\<close> if it makes one.
\<close>

definition handleSummarize :: "Note \<Rightarrow> toast list \<times> (string \<times> string \<times> string) option" where
  "handleSummarize n =
     (if trim (content n) = [] then ([reject_toast], None)
      else ([], Some (nid n, title n, content n)))"

text \<open>
  The card inside the Dashboard, where \<open>onSummarize\<close> is \<open>generateSummary\<close> and the button
  is disabled while \<open>generatingSummary === note.id\<close>.
\<close>

definition card_summarize ::
  "string option \<Rightarrow> Note \<Rightarrow> invoke_response \<Rightarrow> unit_response \<Rightarrow> dashboard
     \<Rightarrow> dashboard \<times> request list" where
  "card_summarize user n ires ures ds =
     (if generatingSummary ds = Some (nid n) then (ds, [])
      else case handleSummarize n of
             (ts, None) \<Rightarrow> (ds\<lparr>toasts := toasts ds @ ts\<rparr>, [])
           | (ts, Some (i, t, c)) \<Rightarrow>
               generateSummary user i t c ires ures (ds\<lparr>toasts := toasts ds @ ts\<rparr>))"

section \<open>Summarization endpoint (the summarize-note function)\<close>

text \<open>A JSON value as far as its truthiness goes; objects and arrays are always truthy.\<close>

datatype jsval = JUndefined | JNull | JBool bool | JNum int | JStr string | JObject







datatype resp_body = NullBody | ErrorJson string | SummaryJson jsval

record http_response =
  status :: nat
  headers :: "(string \<times> string) list"
  body :: resp_body

definition corsHeaders :: "(string \<times> string) list" where
  "corsHeaders =
     [(''Access-Control-Allow-Origin'', ''*''),
      (''Access-Control-Allow-Headers'', ''authorization, x-client-info, apikey, content-type'')]"

definition jsonHeaders :: "(string \<times> string) list" where
  "jsonHeaders = corsHeaders @ [(''Content-Type'', ''application/json'')]"

text \<open>The \<open>catch\<close> block: \<open>error.message || 'Internal server error'\<close>, status 500.\<close>

definition caught :: "string \<Rightarrow> http_response" where
  "caught msg =
     \<lparr>status = 500, headers = jsonHeaders,
      body = ErrorJson (if msg = [] then ''Internal server error'' else msg)\<rparr>"



section \<open>Auxiliary facts\<close>

lemma trim_examples:
  "trim '' '' = []"
  "trim [] = []"
  "trim '' hi '' = ''hi''"
  "trim ''Meeting'' = ''Meeting''"
  "trim ''Discuss budget'' = ''Discuss budget''"
  by (simp_all add: trim_def is_space_def)


lemma add_toast_fields [simp]:
  "noteList (add_toast t ds) = noteList ds"
  "searchTerm (add_toast t ds) = searchTerm ds"
  "isEditorOpen (add_toast t ds) = isEditorOpen ds"
  "editingNote (add_toast t ds) = editingNote ds"
  "loading (add_toast t ds) = loading ds"
  "savingNote (add_toast t ds) = savingNote ds"
  "generatingSummary (add_toast t ds) = generatingSummary ds"
  "toasts (add_toast t ds) = toasts ds @ [t]"
  by (simp_all add: add_toast_def)

lemma summary_failed_fields:
  "noteList (summary_failed msg ds) = noteList ds"
  "generatingSummary (summary_failed msg ds) = None"
  "(summary_failed msg ds)\<lparr>noteList := ns, toasts := ts\<rparr> =
     ds\<lparr>noteList := ns, toasts := ts, generatingSummary := None\<rparr>"
  by (simp_all add: summary_failed_def add_toast_def)

lemma summary_stored_fields:
  "noteList (summary_stored i s ds) =
     map (\<lambda>n. if nid n = i then n\<lparr>summary := Some s\<rparr> else n) (noteList ds)"
  "generatingSummary (summary_stored i s ds) = None"
  "(summary_stored i s ds)\<lparr>noteList := ns, toasts := ts\<rparr> =
     ds\<lparr>noteList := ns, toasts := ts, generatingSummary := None\<rparr>"
  by (simp_all add: summary_stored_def add_toast_def)

lemma saveNote_resume_failed:
  "saveNote_resume nd (Inl err) ds =
     ds\<lparr>toasts := toasts ds @ [\<lparr>toast_title = ''Error saving note'',
              toast_description = ''Please try again'', destructive = True\<rparr>],
        savingNote := False\<rparr>"
  by (simp add: saveNote_resume_def add_toast_def)

lemma saveNote_update_noteList:
  assumes "p_id nd = Some i" and "i \<noteq> []"
  shows "noteList (fst (saveNote (Some uid) nd (Inr data) ds))
         = map (\<lambda>n. if nid n = i then merge_row n data else n) (noteList ds)"
  using assms by (simp add: saveNote_def saveNote_resume_def saveNote_begin_def)

subsection \<open>The store\<close>

lemma find_map_matching:
  assumes "\<And>r. row_matches i u r \<Longrightarrow> row_matches i u (g r)"
  shows "find (row_matches i u) (map (\<lambda>r. if row_matches i u r then g r else r) tbl)
         = map_option g (find (row_matches i u) tbl)"
  using assms by (induction tbl) auto

lemma persisted_summary_after_summary_update:
  "persisted_summary (store_apply now fresh (StoreUpdateSummary v i u) tbl) u i
   = map_option (\<lambda>_. Some v) (persisted_summary tbl u i)"
proof -
  have "find (row_matches i u)
          (map (\<lambda>r. if row_matches i u r
                     then (fst r, (snd r)\<lparr>summary := Some v, updated_at := now\<rparr>) else r) tbl)
        = map_option (\<lambda>r. (fst r, (snd r)\<lparr>summary := Some v, updated_at := now\<rparr>))
            (find (row_matches i u) tbl)"
    by (rule find_map_matching) (simp add: row_matches_def)
  then show ?thesis
    by (simp add: persisted_summary_def option.map_comp comp_def)
qed

lemma persisted_summary_after_update:
  "persisted_summary (store_apply now fresh (StoreUpdate i u t c) tbl) u' i'
   = persisted_summary tbl u' i'"
proof -
  have "find (row_matches i' u') (store_apply now fresh (StoreUpdate i u t c) tbl)
        = map_option (\<lambda>r. if row_matches i u r
               then (fst r, (snd r)\<lparr>title := t, content := c, updated_at := now\<rparr>)
               else r) (find (row_matches i' u') tbl)"
    by (induction tbl) (auto simp: row_matches_def)
  then show ?thesis
    by (simp add: persisted_summary_def option.map_comp comp_def if_distrib cong: if_cong)
qed

lemma find_as_filter:
  "find P xs = (case filter P xs of [] \<Rightarrow> None | x # _ \<Rightarrow> Some x)"
  by (induction xs) auto

lemma filter_updated_rows:
  "filter (row_matches i u) (store_apply now fresh (StoreUpdate i u t c) tbl)
   = map (\<lambda>r. (fst r, (snd r)\<lparr>title := t, content := c, updated_at := now\<rparr>))
       (filter (row_matches i u) tbl)"
  by (induction tbl) (auto simp: row_matches_def)

lemma update_answer_summary:
  assumes "update_answer now i u t c tbl = Inr data"
  shows "persisted_summary tbl u i = Some (summary data)"
proof -
  from assms obtain r where
    r: "filter (row_matches i u) (store_apply now [] (StoreUpdate i u t c) tbl) = [r]"
    and d: "data = snd r"
    by (auto simp: update_answer_def split: list.splits)
  from r obtain r0 where r0: "filter (row_matches i u) tbl = [r0]"
    and rr: "r = (fst r0, (snd r0)\<lparr>title := t, content := c, updated_at := now\<rparr>)"
    unfolding filter_updated_rows by (cases "filter (row_matches i u) tbl") auto
  have "find (row_matches i u) tbl = Some r0"
    by (simp add: find_as_filter r0)
  then show ?thesis
    by (simp add: persisted_summary_def d rr)
qed

subsection \<open>Substring search\<close>



lemma includes_str_empty [simp]: "includes_str s []"
  by (cases s) auto








subsection \<open>The search beyond Latin-1\<close>





subsection \<open>Word counts\<close>

lemma foldl_add_sum:
  fixes f :: "'a \<Rightarrow> nat"
  shows "foldl (\<lambda>acc n. acc + f n) a ns = a + sum_list (map f ns)"
  by (induction ns arbitrary: a) auto

lemma totalWords_sum:
  "totalWords ns = sum_list (map (\<lambda>n. length (split_ws (content n))) ns)"
  by (simp add: totalWords_def foldl_add_sum)

lemma split_ws_no_empty_token:
  "s \<noteq> [] \<Longrightarrow> \<not> is_space (hd s) \<Longrightarrow> \<not> is_space (last s) \<Longrightarrow> [] \<notin> set (split_ws s)"
proof (induction s rule: split_ws.induct)
  case (1 s)
  let ?tok = "takeWhile (\<lambda>c. \<not> is_space c) s"
  let ?rest = "dropWhile (\<lambda>c. \<not> is_space c) s"
  have tok: "?tok \<noteq> []"
    using "1.prems" by (simp add: takeWhile_eq_Nil_iff)
  show ?case
  proof (cases "?rest = []")
    case True
    then show ?thesis using tok by (simp add: split_ws.simps [of s] Let_def)
  next
    case False
    let ?next = "dropWhile is_space ?rest"
    have s: "s = ?tok @ ?rest" by simp
    have "last s = last ?rest"
      using False last_appendR [of ?rest ?tok] by simp
    then have lr: "\<not> is_space (last ?rest)" using "1.prems" by simp
    have ne: "?next \<noteq> []"
    proof
      assume "?next = []"
      then have "\<forall>x \<in> set ?rest. is_space x"
        by (simp only: dropWhile_eq_Nil_conv)
      then have "is_space (last ?rest)"
        using False last_in_set [of ?rest] by blast
      with lr show False by simp
    qed
    have h: "\<not> is_space (hd ?next)"
      using ne hd_dropWhile [of is_space ?rest] by simp
    have "?rest = takeWhile is_space ?rest @ ?next" by simp
    then have "last ?rest = last ?next"
      using ne last_appendR [of ?next "takeWhile is_space ?rest"] by simp
    then have l: "\<not> is_space (last ?next)" using lr by simp
    have "[] \<notin> set (split_ws ?next)"
      using "1.IH" [OF refl refl False ne h l] .
    then show ?thesis
      using tok False by (simp add: split_ws.simps [of s] Let_def)
  qed
qed

lemma trim_fixed:
  assumes "s \<noteq> []" and "\<not> is_space (hd s)" and "\<not> is_space (last s)"
  shows "trim s = s"
proof -
  have a: "dropWhile is_space s = s"
    using assms by (cases s) auto
  have "rev s \<noteq> []" and "\<not> is_space (hd (rev s))"
    using assms by (simp_all add: hd_rev)
  then have "dropWhile is_space (rev s) = rev s"
    by (cases "rev s") auto
  then show ?thesis by (simp add: trim_def a)
qed

lemma trim_ends:
  assumes "trim c \<noteq> []"
  shows "\<not> is_space (hd (trim c)) \<and> \<not> is_space (last (trim c))"
proof -
  let ?d = "dropWhile is_space c"
  let ?e = "dropWhile is_space (rev ?d)"
  have e: "?e \<noteq> []" using assms by (simp add: trim_def)
  have d: "?d \<noteq> []"
  proof
    assume "?d = []"
    then have "?e = []" by (simp only: rev.simps dropWhile.simps)
    with e show False by simp
  qed
  have l: "\<not> is_space (last (trim c))"
    using e hd_dropWhile [of is_space "rev ?d"] by (simp add: trim_def last_rev)
  have "rev ?d = takeWhile is_space (rev ?d) @ ?e" by simp
  then have "last (rev ?d) = last ?e"
    using e last_appendR [of ?e "takeWhile is_space (rev ?d)"] by simp
  then have "last ?e = hd ?d" using d by (simp add: last_rev)
  moreover have "\<not> is_space (hd ?d)"
    using d hd_dropWhile [of is_space c] by simp
  ultimately have "\<not> is_space (hd (trim c))"
    using e by (simp add: trim_def hd_rev)
  then show ?thesis using l by simp
qed

text \<open>
  On every content the editor can save other than the empty one, cutting at white space
  yields no empty piece, so the two ways of counting words agree there.
\<close>

lemma word_counts_agree_on_trimmed:
  assumes "trim c \<noteq> []"
  shows "length (split_ws (trim c)) = wordCount (trim c)"
proof -
  note ends = trim_ends [OF assms]
  have idem: "trim (trim c) = trim c"
    using assms ends by (simp add: trim_fixed)
  have "[] \<notin> set (split_ws (trim c))"
    using assms ends by (simp add: split_ws_no_empty_token)
  then have "filter (\<lambda>word. length word > 0) (split_ws (trim c)) = split_ws (trim c)"
    by (auto simp: filter_id_conv)
  then show ?thesis by (simp add: wordCount_def idem)
qed

subsection \<open>The endpoint\<close>

lemma caught_fields:
  "status (caught msg) = 500"
  "headers (caught msg) = jsonHeaders"
  "\<exists>e. body (caught msg) = ErrorJson e"
  by (simp_all add: caught_def)



section \<open>The claims\<close>

text \<open>
  C1. Saving from the editor trims the title and the content. When both are empty after
  trimming, \<open>onSave\<close> is not invoked: inside the Dashboard no request is issued and the
  state (the note list, the open editor) stays as it was. Otherwise \<open>onSave\<close> is invoked
  once, with the trimmed content and with the trimmed title, or with \<open>Untitled Note\<close> when
  the trimmed title is empty.
\<close>

theorem handleSave_contract:
  "(trim (ed_title ed) = [] \<and> trim (ed_content ed) = [] \<longrightarrow>
      handleSave ed = [] \<and> editor_save user ed resp ds = (ds, []))
   \<and> (\<not> (trim (ed_title ed) = [] \<and> trim (ed_content ed) = []) \<longrightarrow>
      handleSave ed =
        [OnSave \<lparr>p_id = note_id_of (ed_note ed),
                 p_title = (if trim (ed_title ed) = [] then ''Untitled Note''
                            else trim (ed_title ed)),
                 p_content = trim (ed_content ed)\<rparr>]
      \<and> editor_save user ed resp ds =
          saveNote user
            \<lparr>p_id = note_id_of (ed_note ed),
             p_title = (if trim (ed_title ed) = [] then ''Untitled Note''
                        else trim (ed_title ed)),
             p_content = trim (ed_content ed)\<rparr> resp ds)"
  by (simp add: handleSave_def editor_save_def Let_def split: prod.splits)

theorem handleSave_contract_witness:
  "handleSave \<lparr>ed_note = None, ed_isLoading = False, ed_title = '' '', ed_content = []\<rparr> = []
   \<and> editor_save (Some ''u1'')
        \<lparr>ed_note = None, ed_isLoading = False, ed_title = '' '', ed_content = []\<rparr>
        (Inl ''offline'') initial_dashboard = (initial_dashboard, [])
   \<and> handleSave \<lparr>ed_note = None, ed_isLoading = False, ed_title = '' '', ed_content = '' hi ''\<rparr>
       = [OnSave \<lparr>p_id = None, p_title = ''Untitled Note'', p_content = ''hi''\<rparr>]"
  using handleSave_contract
      [where ed = "\<lparr>ed_note = None, ed_isLoading = False, ed_title = '' '', ed_content = []\<rparr>"
         and user = "Some ''u1''" and resp = "Inl ''offline''" and ds = initial_dashboard]
    handleSave_contract
      [where ed = "\<lparr>ed_note = None, ed_isLoading = False, ed_title = '' '', ed_content = '' hi ''\<rparr>"]
  by (simp add: trim_examples note_id_of_def)

text \<open>
  C2 (as amended). An update-save of the note \<open>i\<close> sends the store the title and the content
  only, so the stored summary of every note stays what it was. In memory the entry with that
  identifier takes every column of the row the store returned, the summary too: its summary
  after the save is the summary of the returned row. It is the summary it had before whenever
  the returned row carries that summary, and the row returned for a table holds the stored
  summary. The other entries, the order and the length of the list do not change, and a failed
  save changes no entry.
\<close>

theorem update_save_summary:
  assumes "p_id nd = Some i" and "i \<noteq> []"
  shows "snd (saveNote (Some uid) nd resp ds) = [StoreUpdate i uid (p_title nd) (p_content nd)]
    \<and> persisted_summary
          (store_apply now fresh (StoreUpdate i uid (p_title nd) (p_content nd)) tbl) u' i'
        = persisted_summary tbl u' i'
    \<and> noteList (fst (saveNote (Some uid) nd (Inl err) ds)) = noteList ds
    \<and> noteList (fst (saveNote (Some uid) nd (Inr data) ds))
        = map (\<lambda>n. if nid n = i then merge_row n data else n) (noteList ds)
    \<and> map summary (noteList (fst (saveNote (Some uid) nd (Inr data) ds)))
        = map (\<lambda>n. if nid n = i then summary data else summary n) (noteList ds)
    \<and> ((\<forall>n \<in> set (noteList ds). nid n = i \<longrightarrow> summary n = summary data) \<longrightarrow>
         map summary (noteList (fst (saveNote (Some uid) nd (Inr data) ds)))
           = map summary (noteList ds))
    \<and> (update_answer now i uid (p_title nd) (p_content nd) tbl = Inr data \<longrightarrow>
         persisted_summary tbl uid i = Some (summary data))"
proof -
  have req: "snd (saveNote (Some uid) nd resp ds)
             = [StoreUpdate i uid (p_title nd) (p_content nd)]"
    using assms by (simp add: saveNote_def saveNote_request_def)
  have fail: "noteList (fst (saveNote (Some uid) nd (Inl err) ds)) = noteList ds"
    by (simp add: saveNote_def saveNote_resume_def saveNote_begin_def)
  note mem = saveNote_update_noteList [OF assms, of uid data ds]
  have sums: "map summary (noteList (fst (saveNote (Some uid) nd (Inr data) ds)))
        = map (\<lambda>n. if nid n = i then summary data else summary n) (noteList ds)"
    unfolding mem by (simp add: merge_row_def comp_def if_distrib cong: if_cong)
  have same: "(\<forall>n \<in> set (noteList ds). nid n = i \<longrightarrow> summary n = summary data) \<longrightarrow>
         map summary (noteList (fst (saveNote (Some uid) nd (Inr data) ds)))
           = map summary (noteList ds)"
    unfolding sums by (auto intro: map_cong)
  have ans: "update_answer now i uid (p_title nd) (p_content nd) tbl = Inr data \<longrightarrow>
         persisted_summary tbl uid i = Some (summary data)"
    by (auto dest: update_answer_summary)
  show ?thesis
    using req fail mem sums same ans
    by (simp only: persisted_summary_after_update simp_thms)
qed

theorem update_save_summary_witness:
  "snd (saveNote (Some ''u1'')
      \<lparr>p_id = Some ''n1'', p_title = ''Meeting'', p_content = ''Discuss budget''\<rparr>
      (Inr \<lparr>nid = ''n1'', title = ''Meeting'', content = ''Discuss budget'',
            summary = Some ''old'', created_at = ''t0'', updated_at = ''t2''\<rparr>)
      (initial_dashboard\<lparr>noteList :=
         [\<lparr>nid = ''n1'', title = ''Meet'', content = ''Discuss budget'',
           summary = Some ''old'', created_at = ''t0'', updated_at = ''t1''\<rparr>]\<rparr>))
   = [StoreUpdate ''n1'' ''u1'' ''Meeting'' ''Discuss budget'']
   \<and> map summary (noteList (fst (saveNote (Some ''u1'')
      \<lparr>p_id = Some ''n1'', p_title = ''Meeting'', p_content = ''Discuss budget''\<rparr>
      (Inr \<lparr>nid = ''n1'', title = ''Meeting'', content = ''Discuss budget'',
            summary = Some ''old'', created_at = ''t0'', updated_at = ''t2''\<rparr>)
      (initial_dashboard\<lparr>noteList :=
         [\<lparr>nid = ''n1'', title = ''Meet'', content = ''Discuss budget'',
           summary = Some ''old'', created_at = ''t0'', updated_at = ''t1''\<rparr>]\<rparr>))))
   = [Some ''old'']"
proof -
  have a: "p_id \<lparr>p_id = Some ''n1'', p_title = ''Meeting'', p_content = ''Discuss budget''\<rparr>
           = Some ''n1''"
    by simp
  have b: "''n1'' \<noteq> []"
    by simp
  note t = update_save_summary
      [OF a b, where uid = "''u1''"
         and data = "\<lparr>nid = ''n1'', title = ''Meeting'', content = ''Discuss budget'',
            summary = Some ''old'', created_at = ''t0'', updated_at = ''t2''\<rparr>"
         and resp = "Inr \<lparr>nid = ''n1'', title = ''Meeting'', content = ''Discuss budget'',
            summary = Some ''old'', created_at = ''t0'', updated_at = ''t2''\<rparr>"
         and ds = "initial_dashboard\<lparr>noteList :=
            [\<lparr>nid = ''n1'', title = ''Meet'', content = ''Discuss budget'',
              summary = Some ''old'', created_at = ''t0'', updated_at = ''t1''\<rparr>]\<rparr>"]
  show ?thesis
    using t [THEN conjunct1]
      t [THEN conjunct2, THEN conjunct2, THEN conjunct2, THEN conjunct2, THEN conjunct1]
    by simp
qed

text \<open>
  The claim as first stated (an update-save never changes the in-memory summary) fails when
  the returned row carries another summary than the entry in memory: the merge takes it.
\<close>

theorem update_save_summary_counterexample:
  "map summary (noteList (fst (saveNote (Some ''u1'')
      \<lparr>p_id = Some ''n1'', p_title = ''Meeting'', p_content = ''Discuss budget''\<rparr>
      (Inr \<lparr>nid = ''n1'', title = ''Meeting'', content = ''Discuss budget'',
            summary = Some ''new'', created_at = ''t0'', updated_at = ''t2''\<rparr>)
      (initial_dashboard\<lparr>noteList :=
         [\<lparr>nid = ''n1'', title = ''Meet'', content = ''Discuss budget'',
           summary = Some ''old'', created_at = ''t0'', updated_at = ''t1''\<rparr>]\<rparr>))))
   = [Some ''new'']
   \<and> map summary (noteList (initial_dashboard\<lparr>noteList :=
         [\<lparr>nid = ''n1'', title = ''Meet'', content = ''Discuss budget'',
           summary = Some ''old'', created_at = ''t0'', updated_at = ''t1''\<rparr>]\<rparr>))
   = [Some ''old'']"
  by (simp add: saveNote_def saveNote_resume_def saveNote_begin_def merge_row_def
      initial_dashboard_def)

text \<open>
  C3. A summarize call on a note with content, answered with a non-empty summary \<open>v\<close> and
  accepted by the store, asks the store to set the summary of that note to \<open>v\<close> and sets the
  summary of the matching entries in memory to \<open>v\<close>, whatever the summary was before. Every
  other column of those entries and every other entry stay as they were, at the same place
  in the list. In the store, the row of that note and user, when there is one, holds \<open>v\<close>
  afterwards; the statement writes the summary (and the trigger the update time) of the
  matching rows only.
\<close>

theorem summary_fully_overwritten:
  assumes "trim cnt \<noteq> []" and "v \<noteq> []"
  shows "generateSummary (Some uid) noteId ttl cnt (InvokeData (Some v)) None ds =
           (summary_stored noteId v (generateSummary_begin noteId ds),
            [InvokeSummarize ttl cnt, StoreUpdateSummary v noteId uid])
    \<and> noteList (fst (generateSummary (Some uid) noteId ttl cnt (InvokeData (Some v)) None ds)) =
        map (\<lambda>n. if nid n = noteId then n\<lparr>summary := Some v\<rparr> else n) (noteList ds)
    \<and> (\<forall>k < length (noteList ds).
         noteList (fst (generateSummary (Some uid) noteId ttl cnt (InvokeData (Some v)) None ds)) ! k =
           (if nid (noteList ds ! k) = noteId then (noteList ds ! k)\<lparr>summary := Some v\<rparr>
            else noteList ds ! k))
    \<and> (persisted_summary tbl uid noteId \<noteq> None \<longrightarrow>
         persisted_summary (store_apply now fresh (StoreUpdateSummary v noteId uid) tbl) uid noteId
           = Some (Some v))
    \<and> store_apply now fresh (StoreUpdateSummary v noteId uid) tbl =
        map (\<lambda>r. if nid (snd r) = noteId \<and> fst r = uid
                  then (fst r, (snd r)\<lparr>summary := Some v, updated_at := now\<rparr>) else r) tbl"
proof -
  have run: "generateSummary (Some uid) noteId ttl cnt (InvokeData (Some v)) None ds =
           (summary_stored noteId v (generateSummary_begin noteId ds),
            [InvokeSummarize ttl cnt, StoreUpdateSummary v noteId uid])"
    using assms by (simp add: generateSummary_def Let_def)
  have mem: "noteList (summary_stored noteId v (generateSummary_begin noteId ds)) =
        map (\<lambda>n. if nid n = noteId then n\<lparr>summary := Some v\<rparr> else n) (noteList ds)"
    by (simp add: summary_stored_fields generateSummary_begin_def)
  have per: "persisted_summary tbl uid noteId \<noteq> None \<longrightarrow>
         persisted_summary (store_apply now fresh (StoreUpdateSummary v noteId uid) tbl) uid noteId
           = Some (Some v)"
  proof
    assume "persisted_summary tbl uid noteId \<noteq> None"
    then obtain y where "persisted_summary tbl uid noteId = Some y" by auto
    then show "persisted_summary (store_apply now fresh (StoreUpdateSummary v noteId uid) tbl)
        uid noteId = Some (Some v)"
      unfolding persisted_summary_after_summary_update by simp
  qed
  have tbl: "store_apply now fresh (StoreUpdateSummary v noteId uid) tbl =
        map (\<lambda>r. if nid (snd r) = noteId \<and> fst r = uid
                  then (fst r, (snd r)\<lparr>summary := Some v, updated_at := now\<rparr>) else r) tbl"
    by (simp add: row_matches_def)
  show ?thesis
    unfolding run fst_conv using mem per tbl by simp
qed

theorem summary_fully_overwritten_witness:
  "noteList (fst (generateSummary (Some ''u1'') ''n1'' ''Meeting'' ''Discuss budget''
      (InvokeData (Some ''Budget talk'')) None
      (initial_dashboard\<lparr>noteList :=
         [\<lparr>nid = ''n1'', title = ''Meeting'', content = ''Discuss budget'',
           summary = Some ''old'', created_at = ''t0'', updated_at = ''t1''\<rparr>,
          \<lparr>nid = ''n2'', title = ''Other'', content = ''text'',
           summary = None, created_at = ''t0'', updated_at = ''t0''\<rparr>]\<rparr>)))
   = [\<lparr>nid = ''n1'', title = ''Meeting'', content = ''Discuss budget'',
       summary = Some ''Budget talk'', created_at = ''t0'', updated_at = ''t1''\<rparr>,
      \<lparr>nid = ''n2'', title = ''Other'', content = ''text'',
       summary = None, created_at = ''t0'', updated_at = ''t0''\<rparr>]
   \<and> persisted_summary
        (store_apply ''t2'' [] (StoreUpdateSummary ''Budget talk'' ''n1'' ''u1'')
           [(''u1'', \<lparr>nid = ''n1'', title = ''Meeting'', content = ''Discuss budget'',
              summary = Some ''old'', created_at = ''t0'', updated_at = ''t1''\<rparr>)])
        ''u1'' ''n1''
      = Some (Some ''Budget talk'')"
proof -
  have a: "trim ''Discuss budget'' \<noteq> []"
    by (simp add: trim_examples)
  have b: "''Budget talk'' \<noteq> []"
    by simp
  note t = summary_fully_overwritten
      [OF a b, where uid = "''u1''" and noteId = "''n1''" and ttl = "''Meeting''"
         and now = "''t2''" and fresh = "[]"
         and tbl = "[(''u1'', \<lparr>nid = ''n1'', title = ''Meeting'', content = ''Discuss budget'',
              summary = Some ''old'', created_at = ''t0'', updated_at = ''t1''\<rparr>)]"
         and ds = "initial_dashboard\<lparr>noteList :=
         [\<lparr>nid = ''n1'', title = ''Meeting'', content = ''Discuss budget'',
           summary = Some ''old'', created_at = ''t0'', updated_at = ''t1''\<rparr>,
          \<lparr>nid = ''n2'', title = ''Other'', content = ''text'',
           summary = None, created_at = ''t0'', updated_at = ''t0''\<rparr>]\<rparr>"]
  have c: "persisted_summary
        [(''u1'', \<lparr>nid = ''n1'', title = ''Meeting'', content = ''Discuss budget'',
              summary = Some ''old'', created_at = ''t0'', updated_at = ''t1''\<rparr>)]
        ''u1'' ''n1'' \<noteq> None"
    by (simp add: persisted_summary_def row_matches_def)
  show ?thesis
    using t [THEN conjunct2, THEN conjunct1]
      t [THEN conjunct2, THEN conjunct2, THEN conjunct2, THEN conjunct1, THEN mp, OF c]
    by simp
qed

text \<open>
  C4. For a note whose content is empty or white space only, summarizing issues no request:
  \<open>generateSummary\<close> shows the rejection toast (the destructive variant) and returns before
  its first await, so the note list, the generating marker and every other cell stay as they
  were; the card's own \<open>handleSummarize\<close> shows the same toast and does not call
  \<open>onSummarize\<close>.
\<close>

theorem blank_content_never_summarized:
  assumes "trim cnt = []"
  shows "generateSummary user noteId ttl cnt ires ures ds = (add_toast reject_toast ds, [])
    \<and> generateSummary_pending noteId cnt ds = None
    \<and> add_toast reject_toast ds = ds\<lparr>toasts := toasts ds @ [reject_toast]\<rparr>
    \<and> noteList (add_toast reject_toast ds) = noteList ds
    \<and> generatingSummary (add_toast reject_toast ds) = generatingSummary ds
    \<and> destructive reject_toast
    \<and> (content n = cnt \<longrightarrow>
          handleSummarize n = ([reject_toast], None)
          \<and> (generatingSummary ds \<noteq> Some (nid n) \<longrightarrow>
               card_summarize user n ires ures ds = (add_toast reject_toast ds, [])))"
  using assms
  by (simp add: generateSummary_def generateSummary_pending_def handleSummarize_def
      card_summarize_def add_toast_def reject_toast_def)

theorem blank_content_never_summarized_witness:
  "generateSummary (Some ''u1'') ''n1'' ''Meeting'' '' '' (InvokeData (Some ''Budget talk'')) None
      initial_dashboard
   = (add_toast reject_toast initial_dashboard, [])
   \<and> handleSummarize \<lparr>nid = ''n1'', title = ''Meeting'', content = '' '', summary = None,
        created_at = ''t0'', updated_at = ''t0''\<rparr> = ([reject_toast], None)"
proof -
  have a: "trim '' '' = []"
    by (simp add: trim_examples)
  note t = blank_content_never_summarized
      [OF a, where user = "Some ''u1''" and noteId = "''n1''" and ttl = "''Meeting''"
         and ires = "InvokeData (Some ''Budget talk'')" and ures = None
         and ds = initial_dashboard
         and n = "\<lparr>nid = ''n1'', title = ''Meeting'', content = '' '', summary = None,
        created_at = ''t0'', updated_at = ''t0''\<rparr>"]
  have c: "content \<lparr>nid = ''n1'', title = ''Meeting'', content = '' '', summary = None,
        created_at = ''t0'', updated_at = ''t0''\<rparr> = '' ''"
    by simp
  show ?thesis
    using t [THEN conjunct1]
      t [THEN conjunct2, THEN conjunct2, THEN conjunct2, THEN conjunct2, THEN conjunct2,
         THEN conjunct2, THEN mp, OF c, THEN conjunct1]
    by simp
qed

text \<open>
  C5. For a note with content, the call sets the generating marker to the identifier of the
  note before it awaits the summarization request (nothing else changes then), and when it
  ends the marker is empty: after a failed request, an answer without a summary, a rejected
  store update, a missing user and after success alike. Apart from the toasts shown and, on
  success, the note list, the final state is the initial one with an empty marker: no error
  state is kept.
\<close>

theorem generating_marker_cleared:
  assumes "trim cnt \<noteq> []"
  shows "generateSummary_pending noteId cnt ds = Some (generateSummary_begin noteId ds)
    \<and> generatingSummary (generateSummary_begin noteId ds) = Some noteId
    \<and> (generateSummary_begin noteId ds)\<lparr>generatingSummary := generatingSummary ds\<rparr> = ds
    \<and> hd (snd (generateSummary user noteId ttl cnt ires ures ds)) = InvokeSummarize ttl cnt
    \<and> generatingSummary (fst (generateSummary user noteId ttl cnt ires ures ds)) = None
    \<and> (fst (generateSummary user noteId ttl cnt ires ures ds))
         \<lparr>noteList := noteList ds, toasts := toasts ds\<rparr> = ds\<lparr>generatingSummary := None\<rparr>"
  using assms
  by (simp add: generateSummary_def generateSummary_pending_def Let_def
      summary_failed_fields summary_stored_fields generateSummary_begin_def
      split: invoke_response.splits option.splits)

theorem generating_marker_cleared_witness:
  "generatingSummary (generateSummary_begin ''n1'' initial_dashboard) = Some ''n1''
   \<and> generatingSummary (fst (generateSummary (Some ''u1'') ''n1'' ''Meeting'' ''Discuss budget''
        (InvokeError ''boom'') None initial_dashboard)) = None
   \<and> generatingSummary (fst (generateSummary (Some ''u1'') ''n1'' ''Meeting'' ''Discuss budget''
        (InvokeData None) None initial_dashboard)) = None
   \<and> generatingSummary (fst (generateSummary (Some ''u1'') ''n1'' ''Meeting'' ''Discuss budget''
        (InvokeData (Some ''Budget talk'')) (Some ''denied'') initial_dashboard)) = None
   \<and> generatingSummary (fst (generateSummary (Some ''u1'') ''n1'' ''Meeting'' ''Discuss budget''
        (InvokeData (Some ''Budget talk'')) None initial_dashboard)) = None"
proof -
  have a: "trim ''Discuss budget'' \<noteq> []"
    by (simp add: trim_examples)
  note t1 = generating_marker_cleared
      [OF a, where noteId = "''n1''" and ds = initial_dashboard and user = "Some ''u1''"
         and ttl = "''Meeting''" and ires = "InvokeError ''boom''" and ures = None]
  note t2 = generating_marker_cleared
      [OF a, where noteId = "''n1''" and ds = initial_dashboard and user = "Some ''u1''"
         and ttl = "''Meeting''" and ires = "InvokeData None" and ures = None]
  note t3 = generating_marker_cleared
      [OF a, where noteId = "''n1''" and ds = initial_dashboard and user = "Some ''u1''"
         and ttl = "''Meeting''" and ires = "InvokeData (Some ''Budget talk'')"
         and ures = "Some ''denied''"]
  note t4 = generating_marker_cleared
      [OF a, where noteId = "''n1''" and ds = initial_dashboard and user = "Some ''u1''"
         and ttl = "''Meeting''" and ires = "InvokeData (Some ''Budget talk'')"
         and ures = None]
  show ?thesis
    using t1 [THEN conjunct2, THEN conjunct1]
      t1 [THEN conjunct2, THEN conjunct2, THEN conjunct2, THEN conjunct2, THEN conjunct1]
      t2 [THEN conjunct2, THEN conjunct2, THEN conjunct2, THEN conjunct2, THEN conjunct1]
      t3 [THEN conjunct2, THEN conjunct2, THEN conjunct2, THEN conjunct2, THEN conjunct1]
      t4 [THEN conjunct2, THEN conjunct2, THEN conjunct2, THEN conjunct2, THEN conjunct1]
    by simp
qed

text \<open>
  C6. When the store call of a save (the insert of a create-save or the update of an
  edit-save) or of a delete fails, the note list is what it was and a destructive toast is
  shown; after a failed save the editor is as open as before, with the same note in it. The
  editor is closed and the edited note forgotten when the save succeeds.
\<close>

theorem store_failure_preserves_state:
  "noteList (fst (saveNote user nd (Inl err) ds)) = noteList ds
   \<and> isEditorOpen (fst (saveNote user nd (Inl err) ds)) = isEditorOpen ds
   \<and> editingNote (fst (saveNote user nd (Inl err) ds)) = editingNote ds
   \<and> saveNote (Some uid) nd (Inl err) ds =
       (ds\<lparr>toasts := toasts ds @ [\<lparr>toast_title = ''Error saving note'',
              toast_description = ''Please try again'', destructive = True\<rparr>],
           savingNote := False\<rparr>,
        [saveNote_request uid nd])
   \<and> (\<not> truthy (p_id nd) \<longrightarrow>
        saveNote_request uid nd = StoreInsert (p_title nd) (p_content nd) uid)
   \<and> (truthy (p_id nd) \<longrightarrow>
        (\<exists>i. p_id nd = Some i
           \<and> saveNote_request uid nd = StoreUpdate i uid (p_title nd) (p_content nd)))
   \<and> isEditorOpen (fst (saveNote (Some uid) nd (Inr data) ds)) = False
   \<and> editingNote (fst (saveNote (Some uid) nd (Inr data) ds)) = None
   \<and> deleteNote (Some uid) noteId (Some err) ds =
       (ds\<lparr>toasts := toasts ds @ [\<lparr>toast_title = ''Error deleting note'',
              toast_description = ''Please try again'', destructive = True\<rparr>]\<rparr>,
        [StoreDelete noteId uid])
   \<and> noteList (fst (deleteNote user noteId (Some err) ds)) = noteList ds"
  by (cases "p_id nd")
    (simp_all add: saveNote_def saveNote_resume_failed saveNote_begin_def saveNote_request_def
      deleteNote_def deleteNote_resume_def add_toast_def saveNote_resume_def
      split: option.splits)

theorem store_failure_preserves_state_witness:
  "saveNote (Some ''u1'')
      \<lparr>p_id = None, p_title = ''Meeting'', p_content = ''Discuss budget''\<rparr>
      (Inl ''offline'') (initial_dashboard\<lparr>isEditorOpen := True\<rparr>)
   = (initial_dashboard
        \<lparr>isEditorOpen := True,
         toasts := [\<lparr>toast_title = ''Error saving note'',
              toast_description = ''Please try again'', destructive = True\<rparr>]\<rparr>,
      [StoreInsert ''Meeting'' ''Discuss budget'' ''u1''])
   \<and> isEditorOpen (fst (saveNote (Some ''u1'')
      \<lparr>p_id = None, p_title = ''Meeting'', p_content = ''Discuss budget''\<rparr>
      (Inr \<lparr>nid = ''n1'', title = ''Meeting'', content = ''Discuss budget'',
            summary = None, created_at = ''t0'', updated_at = ''t0''\<rparr>)
      (initial_dashboard\<lparr>isEditorOpen := True\<rparr>))) = False"
proof -
  note t = store_failure_preserves_state
      [where uid = "''u1''" and err = "''offline''"
         and nd = "\<lparr>p_id = None, p_title = ''Meeting'', p_content = ''Discuss budget''\<rparr>"
         and ds = "initial_dashboard\<lparr>isEditorOpen := True\<rparr>"
         and data = "\<lparr>nid = ''n1'', title = ''Meeting'', content = ''Discuss budget'',
            summary = None, created_at = ''t0'', updated_at = ''t0''\<rparr>"]
  have c: "\<not> truthy (p_id \<lparr>p_id = None, p_title = ''Meeting'', p_content = ''Discuss budget''\<rparr>)"
    by simp
  show ?thesis
    using t [THEN conjunct2, THEN conjunct2, THEN conjunct2, THEN conjunct1]
      t [THEN conjunct2, THEN conjunct2, THEN conjunct2, THEN conjunct2, THEN conjunct1,
         THEN mp, OF c]
      t [THEN conjunct2, THEN conjunct2, THEN conjunct2, THEN conjunct2, THEN conjunct2,
         THEN conjunct2, THEN conjunct1]
    by (simp add: initial_dashboard_def)
qed




text \<open>
  C8. The Total Words tile adds, over the notes in memory, the number of pieces
  \<open>split(/\s+/)\<close> cuts the raw content into. That is not the count the editor displays: for
  the empty content the split has one (empty) piece, so a note without content adds one word
  to the tile, where the editor, which trims and drops the empty pieces, shows zero. (On a
  trimmed content that is not empty the two counts agree: \<open>word_counts_agree_on_trimmed\<close>.)
\<close>

theorem totalWords_counts_empty_content:
  "totalWords [\<lparr>nid = ''n1'', title = ''Meeting'', content = [], summary = None,
                created_at = ''t0'', updated_at = ''t0''\<rparr>] = 1
   \<and> length (split_ws []) = 1
   \<and> wordCount [] = 0"
  by (simp add: totalWords_def wordCount_def trim_def split_ws.simps)




text \<open>
  C10. While a save is in flight the editor's Save and Cancel buttons deliver no click, but
  the key handler does not look at \<open>isLoading\<close>: with a title or a content left after
  trimming, Ctrl+Enter invokes \<open>onSave\<close> with the same payload as a click would, and Escape
  invokes \<open>onCancel\<close>. Inside the Dashboard the first issues a second store request while
  the saving flag is up, and the second closes the editor.
\<close>

theorem keyboard_not_gated_on_isLoading:
  assumes "ed_isLoading ed"
    and "trim (ed_title ed) \<noteq> [] \<or> trim (ed_content ed) \<noteq> []"
  shows "click_save ed = [] \<and> click_cancel ed = []
    \<and> handleKeyDown \<lparr>ctrlKey = True, key = ''Enter''\<rparr> ed =
        [OnSave \<lparr>p_id = note_id_of (ed_note ed),
                 p_title = (if trim (ed_title ed) = [] then ''Untitled Note''
                            else trim (ed_title ed)),
                 p_content = trim (ed_content ed)\<rparr>]
    \<and> handleKeyDown \<lparr>ctrlKey = c, key = ''Escape''\<rparr> ed = [OnCancel]
    \<and> editor_keydown (Some uid) \<lparr>ctrlKey = True, key = ''Enter''\<rparr> ed resp
          (ds\<lparr>savingNote := True\<rparr>) =
        (saveNote_resume
           \<lparr>p_id = note_id_of (ed_note ed),
            p_title = (if trim (ed_title ed) = [] then ''Untitled Note''
                       else trim (ed_title ed)),
            p_content = trim (ed_content ed)\<rparr> resp (ds\<lparr>savingNote := True\<rparr>),
         [saveNote_request uid
           \<lparr>p_id = note_id_of (ed_note ed),
            p_title = (if trim (ed_title ed) = [] then ''Untitled Note''
                       else trim (ed_title ed)),
            p_content = trim (ed_content ed)\<rparr>])
    \<and> editor_keydown user \<lparr>ctrlKey = c, key = ''Escape''\<rparr> ed resp (ds\<lparr>savingNote := True\<rparr>) =
        (closeEditor (ds\<lparr>savingNote := True\<rparr>), [])"
  using assms
  by (auto simp add: click_save_def click_cancel_def save_disabled_def cancel_disabled_def
      handleKeyDown_def handleSave_def editor_keydown_def saveNote_def saveNote_begin_def Let_def)

theorem keyboard_not_gated_on_isLoading_witness:
  "click_save \<lparr>ed_note = None, ed_isLoading = True, ed_title = ''Meeting'',
                ed_content = ''Discuss budget''\<rparr> = []
   \<and> click_cancel \<lparr>ed_note = None, ed_isLoading = True, ed_title = ''Meeting'',
                ed_content = ''Discuss budget''\<rparr> = []
   \<and> handleKeyDown \<lparr>ctrlKey = True, key = ''Enter''\<rparr>
        \<lparr>ed_note = None, ed_isLoading = True, ed_title = ''Meeting'',
         ed_content = ''Discuss budget''\<rparr>
       = [OnSave \<lparr>p_id = None, p_title = ''Meeting'', p_content = ''Discuss budget''\<rparr>]
   \<and> handleKeyDown \<lparr>ctrlKey = False, key = ''Escape''\<rparr>
        \<lparr>ed_note = None, ed_isLoading = True, ed_title = ''Meeting'',
         ed_content = ''Discuss budget''\<rparr>
       = [OnCancel]
   \<and> snd (editor_keydown (Some ''u1'') \<lparr>ctrlKey = True, key = ''Enter''\<rparr>
        \<lparr>ed_note = None, ed_isLoading = True, ed_title = ''Meeting'',
         ed_content = ''Discuss budget''\<rparr>
        (Inl ''offline'') (initial_dashboard\<lparr>savingNote := True\<rparr>))
       = [StoreInsert ''Meeting'' ''Discuss budget'' ''u1'']"
proof -
  have a: "ed_isLoading \<lparr>ed_note = None, ed_isLoading = True, ed_title = ''Meeting'',
                ed_content = ''Discuss budget''\<rparr>"
    by simp
  have b: "trim (ed_title \<lparr>ed_note = None, ed_isLoading = True, ed_title = ''Meeting'',
                ed_content = ''Discuss budget''\<rparr>) \<noteq> []
         \<or> trim (ed_content \<lparr>ed_note = None, ed_isLoading = True, ed_title = ''Meeting'',
                ed_content = ''Discuss budget''\<rparr>) \<noteq> []"
    by (simp add: trim_examples)
  show ?thesis
    using keyboard_not_gated_on_isLoading
      [OF a b, where c = False and uid = "''u1''" and resp = "Inl ''offline''"
         and ds = initial_dashboard and user = "Some ''u1''"]
    by (simp add: trim_examples note_id_of_def saveNote_request_def)
qed

end
